theory Spec2Isabelle
  imports
    Main
    "HOL-Library.Char_ord"
    "HOL-Library.List_Lexorder"
    "HOL-Library.Multiset"
    "HOL-Library.AList"
    "HOL-Library.Word"
begin

section \<open>The delta loader of \<^verbatim>\<open>delta_loader.py\<close>\<close>

text \<open>
  The development embeds the classes \<^verbatim>\<open>LoadState\<close>, \<^verbatim>\<open>DeltaResult\<close> and
  \<^verbatim>\<open>DeltaLoader\<close> of \<^verbatim>\<open>src/delta_loader.py\<close>. Files, the state directory and the
  staging table are explicit state; exceptions are values of the type \<open>error\<close>; the
  functions of the Python runtime and of pandas whose results the loader only passes on
  (MD5, \<^verbatim>\<open>str\<close> of a list of pairs, the iteration order of a set, the per-row hash of
  \<^verbatim>\<open>pd.util.hash_pandas_object\<close>) are the fields of a record \<open>pylib\<close> that every
  operation takes as its first argument. The operations of pandas on frames and series
  (column selection, boolean indexing, \<^verbatim>\<open>astype\<close>, \<^verbatim>\<open>apply\<close> and \<^verbatim>\<open>agg\<close> along the
  rows, \<^verbatim>\<open>concat\<close>) have their documented row-wise meaning; where pandas or
  PostgreSQL refuses what the loader asks, the operation returns the exception.
\<close>

subsection \<open>Data frames as read from CSV\<close>

text \<open>
  \<^verbatim>\<open>pd.read_csv(..., dtype=object)\<close> yields cells that are either a string or the
  missing value NaN (here \<open>None\<close>). A row is the list of its (column, cell) pairs in
  column order, which is what \<^verbatim>\<open>row.items()\<close> enumerates. The column list is kept
  beside the rows since a frame without rows still has columns. \<^verbatim>\<open>read_csv\<close> renames
  repeated header names, so the column names of a frame are distinct.
\<close>

type_synonym cell = "string option"

type_synonym series = "(string \<times> cell) list"

record dataframe =
  df_columns :: "string list"
  df_rows :: "series list"

type_synonym timestamp = nat

text \<open>
  The exceptions the loader can raise. \<open>ValueError\<close> carries the missing columns of
  the schema check; \<open>ValueError_multiple_columns c\<close> is the \<^verbatim>\<open>ValueError\<close> that pandas
  raises when a frame of several columns is assigned to the single column \<open>c\<close>;
  \<open>DatabaseError\<close> is the error of \<^verbatim>\<open>psycopg2\<close> for a statement that PostgreSQL
  refuses.
\<close>

datatype error =
    FileNotFoundError string
  | ValueError "string set"
  | ValueError_multiple_columns string
  | KeyError
  | IndexError
  | DatabaseError

record pylib =
  md5_hexdigest :: "string \<Rightarrow> string"
  py_str :: "series \<Rightarrow> string"
  set_iter :: "string list \<Rightarrow> string list"
  hash_pandas_object :: "dataframe \<Rightarrow> 64 word list"

text \<open>
  \<open>md5_hexdigest s\<close> is \<^verbatim>\<open>hashlib.md5(s.encode()).hexdigest()\<close>; \<open>py_str\<close> is
  \<^verbatim>\<open>str\<close> on a list of pairs; \<open>set_iter ks\<close> is the order in which Python iterates
  the set whose elements are the distinct list \<open>ks\<close> (any permutation of it);
  \<open>hash_pandas_object df\<close> is the \<^verbatim>\<open>uint64\<close> series of per-row hashes.
\<close>

definition set_iter_ok :: "pylib \<Rightarrow> bool" where
  "set_iter_ok lib \<longleftrightarrow> (\<forall>ks. mset (set_iter lib ks) = mset ks)"

subsection \<open>Fingerprints\<close>

text \<open>
  \<^verbatim>\<open>sorted(row.items())\<close> orders the pairs by field name; the cells are compared only
  between pairs of the same name, which a row with distinct column names does not have.
\<close>

definition compute_record_fingerprint :: "pylib \<Rightarrow> series \<Rightarrow> string" where
  "compute_record_fingerprint lib row =
     md5_hexdigest lib (py_str lib (sort_key fst row))"

definition record_fingerprints :: "pylib \<Rightarrow> dataframe \<Rightarrow> string list" where
  "record_fingerprints lib df = map (compute_record_fingerprint lib) (df_rows df)"

text \<open>
  \<^verbatim>\<open>df[c] = values\<close>: the column is replaced where it is if the frame has it,
  and added as the last column otherwise.
\<close>

definition set_column :: "dataframe \<Rightarrow> string \<Rightarrow> cell list \<Rightarrow> dataframe" where
  "set_column df c vs =
     \<lparr> df_columns = (if c \<in> set (df_columns df) then df_columns df else df_columns df @ [c]),
       df_rows = map (\<lambda>(r, v). AList.update c v r) (zip (df_rows df) vs) \<rparr>"

definition add_fingerprints :: "pylib \<Rightarrow> dataframe \<Rightarrow> dataframe" where
  "add_fingerprints lib df =
     set_column df ''_record_fingerprint'' (map Some (record_fingerprints lib df))"

text \<open>\<^verbatim>\<open>str\<close> of a non-negative integer: its decimal digits.\<close>

fun str_nat :: "nat \<Rightarrow> string" where
  "str_nat n =
     (if n < 10 then [''0123456789'' ! n]
      else str_nat (n div 10) @ [''0123456789'' ! (n mod 10)])"

text \<open>
  \<^verbatim>\<open>str(pd.util.hash_pandas_object(df).sum())\<close>: the sum of a \<^verbatim>\<open>uint64\<close> series
  wraps around at \<open>2 ^ 64\<close> and is printed in decimal.
\<close>

definition compute_dataset_fingerprint :: "pylib \<Rightarrow> dataframe \<Rightarrow> string" where
  "compute_dataset_fingerprint lib df = str_nat (unat (sum_list (hash_pandas_object lib df)))"

subsection \<open>Load state and the state directory\<close>

record LoadState =
  entity_type :: string
  last_load_timestamp :: timestamp
  last_csv_path :: string
  last_row_count :: nat
  last_data_fingerprint :: string
  column_schema :: "string list"
  primary_keys :: "string list"
  metadata :: "(string \<times> nat) list"

text \<open>
  The world the loader runs in: the CSV files that exist, each as \<^verbatim>\<open>pd.read_csv\<close>
  parses it, and the state directory, which holds at most one
  \<^verbatim>\<open><entity_type>_load_state.json\<close> per entity type.
\<close>

record world =
  files :: "string \<rightharpoonup> dataframe"
  state_dir :: "string \<rightharpoonup> LoadState"

definition LoadState_save :: "LoadState \<Rightarrow> world \<Rightarrow> world" where
  "LoadState_save st w = w\<lparr>state_dir := (state_dir w)(entity_type st \<mapsto> st)\<rparr>"

definition LoadState_load :: "string \<Rightarrow> world \<Rightarrow> LoadState option" where
  "LoadState_load et w = state_dir w et"

subsection \<open>Delta results\<close>

record DeltaResult =
  dr_entity_type :: string
  new_records :: dataframe
  modified_records :: dataframe
  deleted_record_ids :: "string list"
  unchanged_record_ids :: "string list"
  detection_timestamp :: timestamp

definition len :: "dataframe \<Rightarrow> nat" where
  "len df = length (df_rows df)"

definition has_changes :: "DeltaResult \<Rightarrow> bool" where
  "has_changes d \<longleftrightarrow>
     len (new_records d) > 0 \<or> len (modified_records d) > 0 \<or> length (deleted_record_ids d) > 0"

subsection \<open>The loader and change detection\<close>

record DeltaLoader =
  self_entity_type :: string
  self_primary_keys :: "string list"
  previous_state :: "LoadState option"

definition DeltaLoader_init :: "string \<Rightarrow> string list \<Rightarrow> world \<Rightarrow> DeltaLoader" where
  "DeltaLoader_init et pks w =
     \<lparr> self_entity_type = et, self_primary_keys = pks, previous_state = LoadState_load et w \<rparr>"

text \<open>\<^verbatim>\<open>astype(str)\<close> on an object column: NaN becomes the string \<^verbatim>\<open>nan\<close>.\<close>

definition astype_str :: "cell \<Rightarrow> string" where
  "astype_str c = (case c of None \<Rightarrow> ''nan'' | Some s \<Rightarrow> s)"

definition cell_of :: "series \<Rightarrow> string \<Rightarrow> cell" where
  "cell_of r c = (case map_of r c of None \<Rightarrow> None | Some v \<Rightarrow> v)"

fun join :: "string \<Rightarrow> string list \<Rightarrow> string" where
  "join sep [] = []"
| "join sep [x] = x"
| "join sep (x # y # ys) = x @ sep @ join sep (y # ys)"

text \<open>
  The key series of a frame, row by row: the string form of the one key column, or the
  string forms of all key columns joined by \<^verbatim>\<open>_\<close>. Selecting a column the frame does
  not have raises \<^verbatim>\<open>KeyError\<close>.
\<close>

definition key_series :: "string list \<Rightarrow> dataframe \<Rightarrow> error + string list" where
  "key_series pks df =
     (if \<not> set pks \<subseteq> set (df_columns df) then Inl KeyError
      else if length pks = 1 then
        Inr (map (\<lambda>r. astype_str (cell_of r (pks ! 0))) (df_rows df))
      else
        Inr (map (\<lambda>r. join ''_'' (map (\<lambda>c. astype_str (cell_of r c)) pks)) (df_rows df)))"

text \<open>
  \<^verbatim>\<open>make_composite_key\<close>, the local function of \<^verbatim>\<open>detect_changes\<close>, together with
  the assignment of its result to the column \<^verbatim>\<open>_composite_key\<close>. On a frame without
  rows \<^verbatim>\<open>agg\<close> along the rows of two or more selected columns gives back the selected
  frame instead of a series, and assigning that frame to one column raises
  \<^verbatim>\<open>ValueError\<close>. With one key column, or with rows, the result is the key series.
\<close>

definition make_composite_key :: "string list \<Rightarrow> dataframe \<Rightarrow> error + string list" where
  "make_composite_key pks df =
     (case key_series pks df of
        Inl e \<Rightarrow> Inl e
      | Inr ks \<Rightarrow>
          if 2 \<le> length pks \<and> df_rows df = []
          then Inl (ValueError_multiple_columns ''_composite_key'')
          else Inr ks)"

text \<open>\<^verbatim>\<open>df[mask]\<close>: the rows at the positions where the boolean series \<open>keep\<close> holds.\<close>

definition select_rows :: "dataframe \<Rightarrow> bool list \<Rightarrow> dataframe" where
  "select_rows df keep = df\<lparr>df_rows := map fst (filter snd (zip (df_rows df) keep))\<rparr>"

definition empty_like :: "dataframe \<Rightarrow> dataframe" where
  "empty_like df = \<lparr> df_columns = df_columns df, df_rows = [] \<rparr>"

text \<open>
  The loop over \<^verbatim>\<open>common_keys\<close>. \<open>cur_key\<close> and \<open>cur_fp\<close> are the columns
  \<^verbatim>\<open>_composite_key\<close> and \<^verbatim>\<open>_record_fingerprint\<close> of \<^verbatim>\<open>current_with_fp\<close>, and likewise
  for the previous frame; \<^verbatim>\<open>.iloc[0]\<close> takes the first matching row and raises
  \<^verbatim>\<open>IndexError\<close> when there is none. The accumulator is the pair
  (\<^verbatim>\<open>modified_records_list\<close>, \<^verbatim>\<open>unchanged_keys\<close>).
\<close>

fun classify_common ::
  "dataframe \<Rightarrow> string list \<Rightarrow> string list \<Rightarrow> string list \<Rightarrow> string list \<Rightarrow>
   string list \<Rightarrow> dataframe list \<times> string list \<Rightarrow> error + dataframe list \<times> string list"
where
  "classify_common current_df cur_key cur_fp prev_key prev_fp [] acc = Inr acc"
| "classify_common current_df cur_key cur_fp prev_key prev_fp (key # keys) (mods, unch) =
     (case map_of (zip cur_key cur_fp) key of
        None \<Rightarrow> Inl IndexError
      | Some current_fp \<Rightarrow>
         (case map_of (zip prev_key prev_fp) key of
            None \<Rightarrow> Inl IndexError
          | Some previous_fp \<Rightarrow>
             if current_fp \<noteq> previous_fp then
               classify_common current_df cur_key cur_fp prev_key prev_fp keys
                 (mods @ [select_rows current_df (map (\<lambda>k. k = key) cur_key)], unch)
             else
               classify_common current_df cur_key cur_fp prev_key prev_fp keys
                 (mods, unch @ [key])))"

text \<open>\<^verbatim>\<open>pd.concat(frames, ignore_index=True)\<close> of slices of one frame.\<close>

definition concat_frames :: "string list \<Rightarrow> dataframe list \<Rightarrow> dataframe" where
  "concat_frames cols fs = \<lparr> df_columns = cols, df_rows = concat (map df_rows fs) \<rparr>"

text \<open>
  The part of \<^verbatim>\<open>detect_changes\<close> after both frames are read: fingerprints, composite
  keys, the key sets (a Python set is kept as a list without repetitions and iterated
  through \<open>set_iter\<close>), the new records, the loop, and the modified records. The
  result is (\<^verbatim>\<open>new_records\<close>, \<^verbatim>\<open>modified_records\<close>, \<^verbatim>\<open>deleted_keys\<close> as a list,
  \<^verbatim>\<open>unchanged_keys\<close>).
\<close>

definition compare_snapshots ::
  "pylib \<Rightarrow> string list \<Rightarrow> dataframe \<Rightarrow> dataframe \<Rightarrow>
   error + dataframe \<times> dataframe \<times> string list \<times> string list"
where
  "compare_snapshots lib pks current_df previous_df =
     (let current_with_fp = add_fingerprints lib current_df;
          previous_with_fp = add_fingerprints lib previous_df;
          cur_fp = record_fingerprints lib current_df;
          prev_fp = record_fingerprints lib previous_df
      in case make_composite_key pks current_with_fp of
           Inl e \<Rightarrow> Inl e
         | Inr cur_key \<Rightarrow>
            (case make_composite_key pks previous_with_fp of
               Inl e \<Rightarrow> Inl e
             | Inr prev_key \<Rightarrow>
                (let current_keys = remdups cur_key;
                     previous_keys = remdups prev_key;
                     new_keys = filter (\<lambda>k. k \<notin> set previous_keys) current_keys;
                     deleted_keys = filter (\<lambda>k. k \<notin> set current_keys) previous_keys;
                     common_keys = filter (\<lambda>k. k \<in> set previous_keys) current_keys;
                     new_records = select_rows current_df (map (\<lambda>k. k \<in> set new_keys) cur_key)
                 in case classify_common current_df cur_key cur_fp prev_key prev_fp
                           (set_iter lib common_keys) ([], []) of
                      Inl e \<Rightarrow> Inl e
                    | Inr (modified_records_list, unchanged_keys) \<Rightarrow>
                        Inr (new_records,
                             (if modified_records_list \<noteq> []
                              then concat_frames (df_columns current_df) modified_records_list
                              else empty_like current_df),
                             set_iter lib deleted_keys,
                             unchanged_keys))))"

text \<open>
  \<^verbatim>\<open>detect_changes\<close>. \<open>t_state\<close> and \<open>t_detect\<close> are the readings of
  \<^verbatim>\<open>datetime.now()\<close> for the new load state and for the result. The function returns
  the result or the exception raised, and the world it leaves behind.
\<close>

definition detect_changes ::
  "pylib \<Rightarrow> timestamp \<Rightarrow> timestamp \<Rightarrow> DeltaLoader \<Rightarrow> world \<Rightarrow> string \<Rightarrow> string list \<Rightarrow>
   (error + DeltaResult) \<times> world"
where
  "detect_changes lib t_state t_detect self w current_csv schema_columns =
     (case files w current_csv of
        None \<Rightarrow> (Inl (FileNotFoundError current_csv), w)
      | Some current_df \<Rightarrow>
         (let missing_cols = set schema_columns - set (df_columns current_df)
          in if missing_cols \<noteq> {} then (Inl (ValueError missing_cols), w)
          else
            (case previous_state self of
               None \<Rightarrow>
                 (let new_state =
                        \<lparr> entity_type = self_entity_type self,
                          last_load_timestamp = t_state,
                          last_csv_path = current_csv,
                          last_row_count = len current_df,
                          last_data_fingerprint = compute_dataset_fingerprint lib current_df,
                          column_schema = schema_columns,
                          primary_keys = self_primary_keys self,
                          metadata = [] \<rparr>
                  in (Inr \<lparr> dr_entity_type = self_entity_type self,
                            new_records = current_df,
                            modified_records = empty_like current_df,
                            deleted_record_ids = [],
                            unchanged_record_ids = [],
                            detection_timestamp = t_detect \<rparr>,
                      LoadState_save new_state w))
             | Some prev_state \<Rightarrow>
                 (case files w (last_csv_path prev_state) of
                    None \<Rightarrow>
                      (Inr \<lparr> dr_entity_type = self_entity_type self,
                             new_records = current_df,
                             modified_records = empty_like current_df,
                             deleted_record_ids = [],
                             unchanged_record_ids = [],
                             detection_timestamp = t_detect \<rparr>,
                       w)
                  | Some previous_df \<Rightarrow>
                      (case compare_snapshots lib (self_primary_keys self) current_df previous_df of
                         Inl e \<Rightarrow> (Inl e, w)
                       | Inr (new_records', modified_records', deleted_keys, unchanged_keys) \<Rightarrow>
                           (let new_state =
                                  \<lparr> entity_type = self_entity_type self,
                                    last_load_timestamp = t_state,
                                    last_csv_path = current_csv,
                                    last_row_count = len current_df,
                                    last_data_fingerprint =
                                      compute_dataset_fingerprint lib current_df,
                                    column_schema = schema_columns,
                                    primary_keys = self_primary_keys self,
                                    metadata =
                                      [(''new_count'', len new_records'),
                                       (''modified_count'', len modified_records'),
                                       (''deleted_count'', length deleted_keys)] \<rparr>
                            in (Inr \<lparr> dr_entity_type = self_entity_type self,
                                      new_records = new_records',
                                      modified_records = modified_records',
                                      deleted_record_ids = deleted_keys,
                                      unchanged_record_ids = unchanged_keys,
                                      detection_timestamp = t_detect \<rparr>,
                                LoadState_save new_state w)))))))"

subsection \<open>The staging table and the staging load\<close>

text \<open>
  The staging table \<^verbatim>\<open>schema.staging_table\<close> as the loader's statements see it: a list
  of rows, each a list of (column, value) pairs. The three statements the loader issues
  are taken with their SQL meaning: \<^verbatim>\<open>to_sql(if_exists='append')\<close> adds rows at the
  end, \<^verbatim>\<open>DELETE ... WHERE pk = ANY(ids)\<close> removes the rows whose \<open>pk\<close> value is one of
  the ids, \<^verbatim>\<open>UPDATE ... WHERE pk = ANY(ids)\<close> rewrites them. A NULL value equals no id.
  \<^verbatim>\<open>to_sql\<close> creates the columns under their exact names, whereas the two statements
  of the loader paste the key column into the SQL text without quotes.
\<close>

datatype sqlval = Text string | Null | Timestamp timestamp | Boolean bool

type_synonym staged_row = "(string \<times> sqlval) list"

definition sql_of_cell :: "cell \<Rightarrow> sqlval" where
  "sql_of_cell c = (case c of None \<Rightarrow> Null | Some s \<Rightarrow> Text s)"

text \<open>
  The copy of the records with the three load-tracking columns assigned
  (\<^verbatim>\<open>_load_timestamp\<close>, \<^verbatim>\<open>_load_type\<close>, \<^verbatim>\<open>_is_deleted\<close>, in this order), as
  \<^verbatim>\<open>to_sql\<close> writes it.
\<close>

definition with_meta :: "timestamp \<Rightarrow> string \<Rightarrow> series \<Rightarrow> staged_row" where
  "with_meta t load_type r =
     AList.update ''_is_deleted'' (Boolean False)
       (AList.update ''_load_type'' (Text load_type)
         (AList.update ''_load_timestamp'' (Timestamp t)
           (map (\<lambda>(c, v). (c, sql_of_cell v)) r)))"

definition to_sql_append :: "staged_row list \<Rightarrow> staged_row list \<Rightarrow> staged_row list" where
  "to_sql_append tbl rs = tbl @ rs"

text \<open>
  PostgreSQL reads an unquoted name as a column only if the name is a plain identifier
  (a lower-case letter, a letter beyond ASCII or an underscore, followed by such
  characters, digits or dollar signs: upper-case letters are folded to lower case and a
  space ends the name) and is not a reserved key word. For any other key column, such as
  \<^verbatim>\<open>Record ID\<close> or \<^verbatim>\<open>Case_CaseId\<close>, the statement is refused.
\<close>

definition ident_start :: "char \<Rightarrow> bool" where
  "ident_start c \<longleftrightarrow> c \<in> set ''abcdefghijklmnopqrstuvwxyz_'' \<or> digit7 c"

definition ident_part :: "char \<Rightarrow> bool" where
  "ident_part c \<longleftrightarrow> ident_start c \<or> c \<in> set ''0123456789$''"

definition reserved_words :: "string list" where
  "reserved_words =
     [''all'', ''analyse'', ''analyze'', ''and'', ''any'', ''array'', ''as'', ''asc'',
      ''asymmetric'', ''authorization'', ''binary'', ''both'', ''case'', ''cast'', ''check'',
      ''collate'', ''collation'', ''column'', ''concurrently'', ''constraint'', ''create'',
      ''cross'', ''current_catalog'', ''current_date'', ''current_role'', ''current_schema'',
      ''current_time'', ''current_timestamp'', ''current_user'', ''default'', ''deferrable'',
      ''desc'', ''distinct'', ''do'', ''else'', ''end'', ''except'', ''false'', ''fetch'',
      ''for'', ''foreign'', ''freeze'', ''from'', ''full'', ''grant'', ''group'', ''having'',
      ''ilike'', ''in'', ''initially'', ''inner'', ''intersect'', ''into'', ''is'', ''isnull'',
      ''join'', ''lateral'', ''leading'', ''left'', ''like'', ''limit'', ''localtime'',
      ''localtimestamp'', ''natural'', ''not'', ''notnull'', ''null'', ''offset'', ''on'',
      ''only'', ''or'', ''order'', ''outer'', ''overlaps'', ''placing'', ''primary'',
      ''references'', ''returning'', ''right'', ''select'', ''session_user'', ''similar'',
      ''some'', ''symmetric'', ''system_user'', ''table'', ''tablesample'', ''then'', ''to'',
      ''trailing'', ''true'', ''union'', ''unique'', ''user'', ''using'', ''variadic'',
      ''verbose'', ''when'', ''where'', ''window'', ''with'']"

definition sql_column_ref :: "string \<Rightarrow> bool" where
  "sql_column_ref c \<longleftrightarrow>
     (case c of [] \<Rightarrow> False | x # xs \<Rightarrow> ident_start x \<and> list_all ident_part xs)
     \<and> c \<notin> set reserved_words"

definition matches_any :: "string \<Rightarrow> cell list \<Rightarrow> staged_row \<Rightarrow> bool" where
  "matches_any pk_col ids r =
     (case map_of r pk_col of Some (Text s) \<Rightarrow> Some s \<in> set ids | _ \<Rightarrow> False)"

definition sql_delete_where :: "string \<Rightarrow> cell list \<Rightarrow> staged_row list \<Rightarrow> staged_row list" where
  "sql_delete_where pk_col ids tbl = filter (\<lambda>r. \<not> matches_any pk_col ids r) tbl"

definition mark_deleted :: "timestamp \<Rightarrow> staged_row \<Rightarrow> staged_row" where
  "mark_deleted t r =
     AList.update ''_load_type'' (Text ''delete'')
       (AList.update ''_load_timestamp'' (Timestamp t)
         (AList.update ''_is_deleted'' (Boolean True) r))"

definition sql_update_where ::
  "timestamp \<Rightarrow> string \<Rightarrow> cell list \<Rightarrow> staged_row list \<Rightarrow> staged_row list" where
  "sql_update_where t pk_col ids tbl =
     map (\<lambda>r. if matches_any pk_col ids r then mark_deleted t r else r) tbl"

text \<open>\<^verbatim>\<open>df[c].tolist()\<close>; a column the frame does not have raises \<^verbatim>\<open>KeyError\<close>.\<close>

definition column_tolist :: "dataframe \<Rightarrow> string \<Rightarrow> error + cell list" where
  "column_tolist df c =
     (if c \<in> set (df_columns df) then Inr (map (\<lambda>r. cell_of r c) (df_rows df)) else Inl KeyError)"

text \<open>
  The three phases of \<^verbatim>\<open>load_delta_to_staging\<close>, each taking the table and returning
  the table it leaves and whether it raised. \<^verbatim>\<open>self.primary_keys[0]\<close> raises
  \<^verbatim>\<open>IndexError\<close> on an empty list. \<^verbatim>\<open>cursor.execute\<close> raises when the key column is
  not a column reference as pasted, and the \<^verbatim>\<open>DELETE\<close> also when a missing value is
  among the modified ids, which then are no array of strings; the table is then as the
  phase found it. \<open>t_insert\<close>, \<open>t_update\<close> and \<open>t_delete\<close> are
  the three readings of \<^verbatim>\<open>datetime.now()\<close>.
\<close>

definition load_new ::
  "timestamp \<Rightarrow> DeltaResult \<Rightarrow> staged_row list \<Rightarrow> (error + unit) \<times> staged_row list" where
  "load_new t_insert delta tbl =
     (if len (new_records delta) > 0
      then (Inr (), to_sql_append tbl (map (with_meta t_insert ''insert'') (df_rows (new_records delta))))
      else (Inr (), tbl))"

definition load_modified ::
  "timestamp \<Rightarrow> DeltaLoader \<Rightarrow> DeltaResult \<Rightarrow> staged_row list \<Rightarrow>
   (error + unit) \<times> staged_row list" where
  "load_modified t_update self delta tbl =
     (if len (modified_records delta) > 0 then
        (case self_primary_keys self of
           [] \<Rightarrow> (Inl IndexError, tbl)
         | pk_col # _ \<Rightarrow>
            (case column_tolist (modified_records delta) pk_col of
               Inl e \<Rightarrow> (Inl e, tbl)
             | Inr modified_ids \<Rightarrow>
                 if \<not> sql_column_ref pk_col \<or> None \<in> set modified_ids
                 then (Inl DatabaseError, tbl)
                 else
                   (Inr (),
                    to_sql_append (sql_delete_where pk_col modified_ids tbl)
                      (map (with_meta t_update ''update'') (df_rows (modified_records delta))))))
      else (Inr (), tbl))"

definition load_deleted ::
  "timestamp \<Rightarrow> DeltaLoader \<Rightarrow> DeltaResult \<Rightarrow> staged_row list \<Rightarrow>
   (error + unit) \<times> staged_row list" where
  "load_deleted t_delete self delta tbl =
     (if length (deleted_record_ids delta) > 0 then
        (case self_primary_keys self of
           [] \<Rightarrow> (Inl IndexError, tbl)
         | pk_col # _ \<Rightarrow>
             if \<not> sql_column_ref pk_col then (Inl DatabaseError, tbl)
             else
               (Inr (),
                sql_update_where t_delete pk_col (map Some (deleted_record_ids delta)) tbl))
      else (Inr (), tbl))"

definition load_delta_to_staging ::
  "timestamp \<Rightarrow> timestamp \<Rightarrow> timestamp \<Rightarrow> DeltaLoader \<Rightarrow> DeltaResult \<Rightarrow> staged_row list \<Rightarrow>
   (error + unit) \<times> staged_row list" where
  "load_delta_to_staging t_insert t_update t_delete self delta tbl =
     (if \<not> has_changes delta then (Inr (), tbl)
      else
        (case load_new t_insert delta tbl of
           (Inl e, tbl1) \<Rightarrow> (Inl e, tbl1)
         | (Inr _, tbl1) \<Rightarrow>
            (case load_modified t_update self delta tbl1 of
               (Inl e, tbl2) \<Rightarrow> (Inl e, tbl2)
             | (Inr _, tbl2) \<Rightarrow> load_deleted t_delete self delta tbl2)))"

subsection \<open>Composite keys of a frame\<close>

text \<open>
  The composite key that \<^verbatim>\<open>detect_changes\<close> gives a row: the key columns are read
  from the row with its fingerprint column added, as \<^verbatim>\<open>make_composite_key\<close> is applied
  to \<^verbatim>\<open>current_with_fp\<close>. \<open>frame_keys\<close> is the key series of the rows of a frame
  (for the two snapshots of a run it is what \<^verbatim>\<open>make_composite_key\<close> returned), and
  \<open>fp_differs\<close> the comparison of the first fingerprints found under a key.
\<close>

definition row_key :: "pylib \<Rightarrow> string list \<Rightarrow> series \<Rightarrow> string" where
  "row_key lib pks r =
     (let r' = AList.update ''_record_fingerprint'' (Some (compute_record_fingerprint lib r)) r
      in if length pks = 1 then astype_str (cell_of r' (pks ! 0))
         else join ''_'' (map (\<lambda>c. astype_str (cell_of r' c)) pks))"

definition frame_keys :: "pylib \<Rightarrow> string list \<Rightarrow> dataframe \<Rightarrow> error + string list" where
  "frame_keys lib pks df = key_series pks (add_fingerprints lib df)"

definition fp_differs :: "pylib \<Rightarrow> string list \<Rightarrow> dataframe \<Rightarrow> dataframe \<Rightarrow> string \<Rightarrow> bool" where
  "fp_differs lib pks current_df previous_df k \<longleftrightarrow>
     map_of (zip (map (row_key lib pks) (df_rows current_df)) (record_fingerprints lib current_df)) k
       \<noteq> map_of (zip (map (row_key lib pks) (df_rows previous_df))
             (record_fingerprints lib previous_df)) k"

subsection \<open>Concrete runs\<close>

text \<open>
  A runtime, snapshots over the columns \<^verbatim>\<open>id\<close> and \<^verbatim>\<open>name\<close>, a state directory and a
  staging table on which the operations are evaluated below. In \<open>example_world\<close> the
  previous snapshot \<^verbatim>\<open>old.csv\<close> has the rows 1, 2, 3 and the current snapshot
  \<^verbatim>\<open>new.csv\<close> the rows 1, 2 (renamed) and 4.
\<close>

definition example_lib :: pylib where
  "example_lib =
     \<lparr> md5_hexdigest = (\<lambda>s. s),
       py_str = (\<lambda>r. concat (map (\<lambda>(c, v). c @ ''='' @ astype_str v @ '';'') r)),
       set_iter = (\<lambda>ks. ks),
       hash_pandas_object = (\<lambda>df. map (\<lambda>r. of_nat (length r)) (df_rows df)) \<rparr>"

definition id_name_row :: "string \<Rightarrow> string \<Rightarrow> series" where
  "id_name_row i n = [(''id'', Some i), (''name'', Some n)]"

definition id_name_frame :: "series list \<Rightarrow> dataframe" where
  "id_name_frame rs = \<lparr> df_columns = [''id'', ''name''], df_rows = rs \<rparr>"

definition example_state :: LoadState where
  "example_state =
     \<lparr> entity_type = ''deals'', last_load_timestamp = 1, last_csv_path = ''old.csv'',
       last_row_count = 3, last_data_fingerprint = ''6'',
       column_schema = [''id'', ''name''], primary_keys = [''id''], metadata = [] \<rparr>"

definition example_world :: world where
  "example_world =
     \<lparr> files =
         [''old.csv'' \<mapsto> id_name_frame
            [id_name_row ''1'' ''A'', id_name_row ''2'' ''B'', id_name_row ''3'' ''C''],
          ''new.csv'' \<mapsto> id_name_frame
            [id_name_row ''1'' ''A'', id_name_row ''2'' ''X'', id_name_row ''4'' ''D'']],
       state_dir = [''deals'' \<mapsto> example_state] \<rparr>"

definition example_loader :: DeltaLoader where
  "example_loader = DeltaLoader_init ''deals'' [''id''] example_world"

definition example_new_state :: LoadState where
  "example_new_state =
     \<lparr> entity_type = ''deals'', last_load_timestamp = 5, last_csv_path = ''new.csv'',
       last_row_count = 3, last_data_fingerprint = ''6'',
       column_schema = [''id'', ''name''], primary_keys = [''id''],
       metadata = [(''new_count'', 1), (''modified_count'', 1), (''deleted_count'', 1)] \<rparr>"

definition example_delta :: DeltaResult where
  "example_delta =
     \<lparr> dr_entity_type = ''deals'',
       new_records = id_name_frame [id_name_row ''4'' ''D''],
       modified_records = id_name_frame [id_name_row ''2'' ''X''],
       deleted_record_ids = [''3''],
       unchanged_record_ids = [''1''],
       detection_timestamp = 6 \<rparr>"

text \<open>The world of a first run: the same files and an empty state directory.\<close>

definition first_run_world :: world where
  "first_run_world = example_world\<lparr>state_dir := Map.empty\<rparr>"

text \<open>The world in which the state names \<^verbatim>\<open>old.csv\<close> and that file is gone.\<close>

definition stale_world :: world where
  "stale_world =
     \<lparr> files =
         [''new.csv'' \<mapsto> id_name_frame
            [id_name_row ''1'' ''A'', id_name_row ''2'' ''X'', id_name_row ''4'' ''D'']],
       state_dir = [''deals'' \<mapsto> example_state] \<rparr>"

text \<open>The world of the pure addition: row 2 is added to a snapshot holding row 1.\<close>

definition addition_world :: world where
  "addition_world =
     \<lparr> files =
         [''old.csv'' \<mapsto> id_name_frame [id_name_row ''1'' ''A''],
          ''new.csv'' \<mapsto> id_name_frame [id_name_row ''1'' ''A'', id_name_row ''2'' ''B'']],
       state_dir = [''deals'' \<mapsto> example_state] \<rparr>"

text \<open>The staging table after the previous snapshot was loaded at time 1.\<close>

definition example_table :: "staged_row list" where
  "example_table =
     map (with_meta 1 ''insert'')
       [id_name_row ''1'' ''A'', id_name_row ''2'' ''B'', id_name_row ''3'' ''C'']"

definition example_table_loaded :: "staged_row list" where
  "example_table_loaded =
     [with_meta 1 ''insert'' (id_name_row ''1'' ''A''),
      mark_deleted 9 (with_meta 1 ''insert'' (id_name_row ''3'' ''C'')),
      with_meta 7 ''insert'' (id_name_row ''4'' ''D''),
      with_meta 8 ''update'' (id_name_row ''2'' ''X'')]"

text \<open>
  A loader whose rows are identified by both columns, and the delta that
  \<^verbatim>\<open>detect_changes\<close> computes for it in \<open>example_world\<close>.
\<close>

definition composite_loader :: DeltaLoader where
  "composite_loader = DeltaLoader_init ''deals'' [''id'', ''name''] example_world"

definition composite_delta :: DeltaResult where
  "composite_delta =
     \<lparr> dr_entity_type = ''deals'',
       new_records = id_name_frame [id_name_row ''2'' ''X'', id_name_row ''4'' ''D''],
       modified_records = id_name_frame [],
       deleted_record_ids = [''2_B'', ''3_C''],
       unchanged_record_ids = [''1_A''],
       detection_timestamp = 6 \<rparr>"

definition unchanged_delta :: DeltaResult where
  "unchanged_delta =
     \<lparr> dr_entity_type = ''deals'',
       new_records = id_name_frame [],
       modified_records = id_name_frame [],
       deleted_record_ids = [],
       unchanged_record_ids = [''1'', ''2'', ''3''],
       detection_timestamp = 6 \<rparr>"

text \<open>
  Snapshots with a third column \<^verbatim>\<open>v\<close>, for the loader keyed by \<^verbatim>\<open>id\<close> and
  \<^verbatim>\<open>name\<close>: between \<^verbatim>\<open>old.csv\<close> and \<^verbatim>\<open>new.csv\<close> the record (1, A) changes its
  value, (1, Q) and (2_B, K) stay, (2, B) goes and (3, C) comes. \<open>keyed_delta\<close> is the
  delta that \<^verbatim>\<open>detect_changes\<close> computes, \<open>keyed_table\<close> the staging table after the
  previous snapshot was loaded at time 1, \<open>keyed_table_loaded\<close> the table after the load
  of the delta at the times 7, 8 and 9.
\<close>

definition id_name_v_row :: "string \<Rightarrow> string \<Rightarrow> string \<Rightarrow> series" where
  "id_name_v_row i n v = [(''id'', Some i), (''name'', Some n), (''v'', Some v)]"








section \<open>Properties\<close>

subsection \<open>Record fingerprints\<close>

lemma filter_same_key_distinct:
  "distinct (map f xs) \<Longrightarrow> k \<in> set xs \<Longrightarrow> filter (\<lambda>x. f k = f x) xs = [k]"
proof (induction xs)
  case Nil
  then show ?case by simp
next
  case (Cons x xs)
  show ?case
  proof (cases "k = x")
    case True
    have "filter (\<lambda>y. f x = f y) xs = []"
      using Cons.prems(1) by (auto simp: filter_empty_conv)
    with True show ?thesis by simp
  next
    case False
    with Cons.prems have "k \<in> set xs" by simp
    moreover from this Cons.prems(1) have "f k \<noteq> f x" by (metis distinct.simps(2) imageI list.simps(9) set_map)
    ultimately show ?thesis using Cons by simp
  qed
qed

lemma sort_key_reorder:
  assumes "mset xs = mset ys" and "distinct (map f xs)"
  shows "sort_key f xs = sort_key f ys"
proof -
  let ?zs = "sort_key f ys"
  have m: "mset ?zs = mset xs" using assms(1) by simp
  have dz: "distinct (map f ?zs)"
  proof -
    have "mset (map f ?zs) = mset (map f xs)" using m by (metis mset_map)
    then show ?thesis using assms(2) by (metis mset_eq_imp_distinct_iff)
  qed
  have "filter (\<lambda>x. f k = f x) ?zs = filter (\<lambda>x. f k = f x) xs" if "k \<in> set ?zs" for k
  proof -
    from that m have "k \<in> set xs" by (metis set_mset_mset)
    then show ?thesis
      using filter_same_key_distinct [OF assms(2)] filter_same_key_distinct [OF dz that]
      by simp
  qed
  then show ?thesis
    using properties_for_sort_key [of ?zs xs f] m by simp
qed

text \<open>
  C7. The fingerprint of a row is a function of the row alone, and two rows holding the
  same (field, value) pairs in different declaration orders, the field names being
  distinct as in every frame read from CSV, have the same fingerprint; the repeated
  call on the same row is the case of two equal rows.
\<close>

theorem compute_record_fingerprint_order_independent:
  assumes "mset r1 = mset r2" and "distinct (map fst r1)"
  shows "compute_record_fingerprint lib r1 = compute_record_fingerprint lib r2"
  using sort_key_reorder [OF assms] by (simp add: compute_record_fingerprint_def)

theorem compute_record_fingerprint_order_independent_witness:
  "mset (id_name_row ''1'' ''A'') = mset [(''name'', Some ''A''), (''id'', Some ''1'')]
   \<and> distinct (map fst (id_name_row ''1'' ''A''))
   \<and> compute_record_fingerprint example_lib (id_name_row ''1'' ''A'')
     = compute_record_fingerprint example_lib [(''name'', Some ''A''), (''id'', Some ''1'')]"
  using compute_record_fingerprint_order_independent
    [of "id_name_row ''1'' ''A''" "[(''name'', Some ''A''), (''id'', Some ''1'')]" example_lib]
  by (simp add: id_name_row_def)

subsection \<open>Dataset fingerprints\<close>

text \<open>
  The loader's own part of the dataset fingerprint is a sum, which does not depend on the
  order of its summands: whenever the per-row hashes are a function of the row alone,
  reordering the rows leaves the fingerprint unchanged. Any dependence on the row order
  therefore comes from \<^verbatim>\<open>hash_pandas_object\<close> itself, which by default also hashes
  the index of each row.
\<close>

lemma sum_list_reorder:
  fixes xs ys :: "'a list" and h :: "'a \<Rightarrow> 64 word"
  assumes "mset xs = mset ys"
  shows "sum_list (map h xs) = sum_list (map h ys)"
proof -
  have "sum_mset (mset (map h xs)) = sum_mset (mset (map h ys))"
    using assms by (metis mset_map)
  then show ?thesis by (simp only: sum_mset_sum_list)
qed

lemma compute_dataset_fingerprint_reorder:
  assumes "\<And>df. hash_pandas_object lib df = map h (df_rows df)"
    and "mset (df_rows df1) = mset (df_rows df2)"
  shows "compute_dataset_fingerprint lib df1 = compute_dataset_fingerprint lib df2"
  using sum_list_reorder [OF assms(2)] by (simp add: compute_dataset_fingerprint_def assms(1))

subsection \<open>Evaluation of the concrete runs\<close>

lemmas example_defs =
  example_lib_def id_name_row_def id_name_frame_def example_state_def example_world_def
  example_loader_def example_new_state_def example_delta_def first_run_world_def
  stale_world_def addition_world_def example_table_def example_table_loaded_def
  composite_loader_def composite_delta_def unchanged_delta_def DeltaLoader_init_def
  LoadState_load_def

lemmas eval_defs =
  detect_changes_def compare_snapshots_def Let_def add_fingerprints_def set_column_def
  record_fingerprints_def compute_record_fingerprint_def make_composite_key_def key_series_def
  cell_of_def astype_str_def select_rows_def concat_frames_def empty_like_def len_def
  compute_dataset_fingerprint_def LoadState_save_def

lemma example_lib_ok: "set_iter_ok example_lib"
  by (simp add: set_iter_ok_def example_lib_def)

subsection \<open>Failure and fallback paths of change detection\<close>

text \<open>
  C4. When the current snapshot lacks an expected column, \<^verbatim>\<open>detect_changes\<close> raises
  \<^verbatim>\<open>ValueError\<close> naming the missing columns: no \<^verbatim>\<open>DeltaResult\<close> is returned, and the
  world, hence the persisted load state, is the one the call started from.
\<close>

theorem detect_changes_missing_column:
  assumes "files w current_csv = Some current_df"
    and "\<not> set schema_columns \<subseteq> set (df_columns current_df)"
  shows "detect_changes lib t_state t_detect self w current_csv schema_columns
           = (Inl (ValueError (set schema_columns - set (df_columns current_df))), w)"
  using assms by (simp add: detect_changes_def Let_def)

theorem detect_changes_missing_column_witness:
  "files example_world ''new.csv'' =
       Some (id_name_frame [id_name_row ''1'' ''A'', id_name_row ''2'' ''X'', id_name_row ''4'' ''D''])
   \<and> \<not> set [''id'', ''amount''] \<subseteq> set (df_columns (id_name_frame
         [id_name_row ''1'' ''A'', id_name_row ''2'' ''X'', id_name_row ''4'' ''D'']))
   \<and> detect_changes example_lib 5 6 example_loader example_world ''new.csv'' [''id'', ''amount'']
       = (Inl (ValueError {''amount''}), example_world)"
proof -
  let ?df = "id_name_frame [id_name_row ''1'' ''A'', id_name_row ''2'' ''X'', id_name_row ''4'' ''D'']"
  have h1: "files example_world ''new.csv'' = Some ?df" by (simp add: example_world_def)
  have h2: "\<not> set [''id'', ''amount''] \<subseteq> set (df_columns ?df)"
    by (simp add: id_name_frame_def)
  have m: "set [''id'', ''amount''] - set (df_columns ?df) = {''amount''}"
    by (auto simp: id_name_frame_def)
  from detect_changes_missing_column [OF h1 h2, of example_lib 5 6 example_loader]
  show ?thesis unfolding m using h1 h2 by blast
qed

text \<open>
  C3. On a first run (the loader found no load state) over a readable snapshot of
  \<open>N\<close> rows that has the expected columns, \<^verbatim>\<open>detect_changes\<close> returns the whole
  snapshot as new records (\<open>N\<close> of them), no modified record, no deleted id and no
  unchanged id, and the state directory then holds for the entity type a load state whose
  \<^verbatim>\<open>last_row_count\<close> is \<open>N\<close>.
\<close>

theorem detect_changes_first_run:
  assumes "previous_state self = None"
    and "files w current_csv = Some current_df"
    and "set schema_columns \<subseteq> set (df_columns current_df)"
  shows "\<exists>d w' st. detect_changes lib t_state t_detect self w current_csv schema_columns = (Inr d, w')
           \<and> new_records d = current_df
           \<and> len (new_records d) = len current_df
           \<and> len (modified_records d) = 0
           \<and> deleted_record_ids d = []
           \<and> unchanged_record_ids d = []
           \<and> state_dir w' (self_entity_type self) = Some st
           \<and> last_row_count st = len current_df"
  using assms
  by (simp add: detect_changes_def Let_def LoadState_save_def empty_like_def len_def)

theorem detect_changes_first_run_witness:
  "previous_state (DeltaLoader_init ''deals'' [''id''] first_run_world) = None
   \<and> files first_run_world ''new.csv'' =
       Some (id_name_frame [id_name_row ''1'' ''A'', id_name_row ''2'' ''X'', id_name_row ''4'' ''D''])
   \<and> set [''id'', ''name''] \<subseteq> set (df_columns (id_name_frame
         [id_name_row ''1'' ''A'', id_name_row ''2'' ''X'', id_name_row ''4'' ''D'']))
   \<and> (\<exists>d w' st.
         detect_changes example_lib 5 6 (DeltaLoader_init ''deals'' [''id''] first_run_world)
           first_run_world ''new.csv'' [''id'', ''name''] = (Inr d, w')
       \<and> len (new_records d) = 3
       \<and> len (modified_records d) = 0
       \<and> deleted_record_ids d = []
       \<and> unchanged_record_ids d = []
       \<and> state_dir w' ''deals'' = Some st
       \<and> last_row_count st = 3)"
proof -
  let ?self = "DeltaLoader_init ''deals'' [''id''] first_run_world"
  let ?df = "id_name_frame [id_name_row ''1'' ''A'', id_name_row ''2'' ''X'', id_name_row ''4'' ''D'']"
  have h1: "previous_state ?self = None"
    by (simp add: DeltaLoader_init_def LoadState_load_def first_run_world_def)
  have h2: "files first_run_world ''new.csv'' = Some ?df"
    by (simp add: first_run_world_def example_world_def)
  have h3: "set [''id'', ''name''] \<subseteq> set (df_columns ?df)"
    by (simp add: id_name_frame_def)
  have n: "len ?df = 3" by (simp add: len_def id_name_frame_def)
  have e: "self_entity_type ?self = ''deals''" by (simp add: DeltaLoader_init_def)
  from detect_changes_first_run [OF h1 h2 h3, of example_lib 5 6]
  show ?thesis unfolding n e using h1 h2 h3 by blast
qed

text \<open>
  C2. When a load state exists and the snapshot it names is gone, \<^verbatim>\<open>detect_changes\<close>
  returns normally with every current row as a new record and no modified record or
  deleted id; the world it leaves is the world it found, so no load state is written
  on this path: the state directory still holds the state that names the missing file.
\<close>

theorem detect_changes_missing_previous:
  assumes "previous_state self = Some prev_state"
    and "files w (last_csv_path prev_state) = None"
    and "files w current_csv = Some current_df"
    and "set schema_columns \<subseteq> set (df_columns current_df)"
  shows "\<exists>d. detect_changes lib t_state t_detect self w current_csv schema_columns = (Inr d, w)
           \<and> new_records d = current_df
           \<and> df_rows (modified_records d) = []
           \<and> deleted_record_ids d = []
           \<and> unchanged_record_ids d = []"
  using assms by (simp add: detect_changes_def Let_def empty_like_def)

theorem detect_changes_missing_previous_witness:
  "previous_state example_loader = Some example_state
   \<and> files stale_world (last_csv_path example_state) = None
   \<and> files stale_world ''new.csv'' =
       Some (id_name_frame [id_name_row ''1'' ''A'', id_name_row ''2'' ''X'', id_name_row ''4'' ''D''])
   \<and> set [''id'', ''name''] \<subseteq> set (df_columns (id_name_frame
         [id_name_row ''1'' ''A'', id_name_row ''2'' ''X'', id_name_row ''4'' ''D'']))
   \<and> (\<exists>d. detect_changes example_lib 5 6 example_loader stale_world ''new.csv'' [''id'', ''name'']
             = (Inr d, stale_world)
          \<and> new_records d = id_name_frame
               [id_name_row ''1'' ''A'', id_name_row ''2'' ''X'', id_name_row ''4'' ''D'']
          \<and> df_rows (modified_records d) = []
          \<and> deleted_record_ids d = []
          \<and> unchanged_record_ids d = [])
   \<and> LoadState_load ''deals'' stale_world = Some example_state
   \<and> last_csv_path example_state = ''old.csv''"
proof -
  have h1: "previous_state example_loader = Some example_state"
    by (simp add: example_loader_def DeltaLoader_init_def LoadState_load_def example_world_def)
  have h2: "files stale_world (last_csv_path example_state) = None"
    by (simp add: stale_world_def example_state_def)
  have h3: "files stale_world ''new.csv'' =
       Some (id_name_frame [id_name_row ''1'' ''A'', id_name_row ''2'' ''X'', id_name_row ''4'' ''D''])"
    by (simp add: stale_world_def)
  have h4: "set [''id'', ''name''] \<subseteq> set (df_columns (id_name_frame
         [id_name_row ''1'' ''A'', id_name_row ''2'' ''X'', id_name_row ''4'' ''D'']))"
    by (simp add: id_name_frame_def)
  have s1: "LoadState_load ''deals'' stale_world = Some example_state"
    by (simp add: LoadState_load_def stale_world_def)
  have s2: "last_csv_path example_state = ''old.csv''" by (simp add: example_state_def)
  from detect_changes_missing_previous [OF h1 h2 h3 h4, of example_lib 5 6] h1 h2 h3 h4 s1 s2
  show ?thesis by blast
qed

subsection \<open>Comparison of two snapshots\<close>

lemma zip_map_same: "zip xs (map f xs) = map (\<lambda>x. (x, f x)) xs"
  by (induction xs) simp_all

lemma df_rows_add_fingerprints:
  "df_rows (add_fingerprints lib df) =
     map (\<lambda>r. AList.update ''_record_fingerprint'' (Some (compute_record_fingerprint lib r)) r)
       (df_rows df)"
  by (simp add: add_fingerprints_def set_column_def record_fingerprints_def zip_map_same o_def)

lemma df_columns_add_fingerprints:
  "df_columns (add_fingerprints lib df) =
     (if ''_record_fingerprint'' \<in> set (df_columns df) then df_columns df
      else df_columns df @ [''_record_fingerprint''])"
  by (simp add: add_fingerprints_def set_column_def)

lemma frame_keys_eq:
  "frame_keys lib pks df =
     (if set pks \<subseteq> set (df_columns (add_fingerprints lib df))
      then Inr (map (row_key lib pks) (df_rows df)) else Inl KeyError)"
  by (simp add: frame_keys_def key_series_def df_rows_add_fingerprints row_key_def
      Let_def o_def)

lemma make_composite_key_frame_keys:
  "make_composite_key pks (add_fingerprints lib df) = Inr ks \<Longrightarrow> frame_keys lib pks df = Inr ks"
  by (auto simp: make_composite_key_def frame_keys_def split: sum.splits if_splits)

lemma df_rows_select_rows:
  "df_rows (select_rows df (map P (map f (df_rows df)))) = filter (\<lambda>r. P (f r)) (df_rows df)"
proof -
  have "map fst (filter snd (zip xs (map P (map f xs)))) = filter (\<lambda>r. P (f r)) xs" for xs
    by (induction xs) simp_all
  then show ?thesis by (simp add: select_rows_def)
qed

lemma df_columns_select_rows [simp]: "df_columns (select_rows df m) = df_columns df"
  by (simp add: select_rows_def)

lemma classify_common_eq:
  assumes "set ks \<subseteq> set cur_key \<inter> set prev_key"
    and "length cur_fp = length cur_key" and "length prev_fp = length prev_key"
  shows "classify_common df cur_key cur_fp prev_key prev_fp ks (mods, unch) =
           Inr (mods @ map (\<lambda>k. select_rows df (map (\<lambda>k'. k' = k) cur_key))
                        (filter (\<lambda>k. map_of (zip cur_key cur_fp) k \<noteq> map_of (zip prev_key prev_fp) k) ks),
                unch @ filter (\<lambda>k. map_of (zip cur_key cur_fp) k = map_of (zip prev_key prev_fp) k) ks)"
  using assms(1)
proof (induction ks arbitrary: mods unch)
  case Nil
  then show ?case by simp
next
  case (Cons k ks)
  from Cons.prems assms(2) obtain c where c: "map_of (zip cur_key cur_fp) k = Some c"
    using map_of_zip_is_Some [of cur_key cur_fp k] by auto
  from Cons.prems assms(3) obtain p where p: "map_of (zip prev_key prev_fp) k = Some p"
    using map_of_zip_is_Some [of prev_key prev_fp k] by auto
  from Cons.prems have "set ks \<subseteq> set cur_key \<inter> set prev_key" by simp
  then show ?case using c p Cons.IH by simp
qed

lemma set_iter_set: "set_iter_ok lib \<Longrightarrow> set (set_iter lib ks) = set ks"
  by (metis set_iter_ok_def mset_eq_setD)

lemma set_iter_Nil: "set_iter_ok lib \<Longrightarrow> set_iter lib [] = []"
  by (metis set_iter_ok_def mset_zero_iff)

lemma set_iter_single: "set_iter_ok lib \<Longrightarrow> set_iter lib [x] = [x]"
  by (metis set_iter_ok_def mset_single_iff_right)

lemma frame_keys_same_columns:
  assumes "frame_keys lib pks df = Inr ks" and "df_columns df' = df_columns df"
  shows "frame_keys lib pks df' = Inr (map (row_key lib pks) (df_rows df'))"
  using assms by (simp add: frame_keys_eq df_columns_add_fingerprints split: if_splits)

lemma frame_keys_rows:
  "frame_keys lib pks df = Inr ks \<Longrightarrow> ks = map (row_key lib pks) (df_rows df)"
  by (simp add: frame_keys_eq split: if_splits)

lemma compare_snapshots_eq:
  assumes ok: "set_iter_ok lib"
    and mc: "make_composite_key pks (add_fingerprints lib current_df) = Inr ck"
    and mp: "make_composite_key pks (add_fingerprints lib previous_df) = Inr pk"
  shows "compare_snapshots lib pks current_df previous_df =
           Inr (current_df\<lparr>df_rows :=
                   filter (\<lambda>r. row_key lib pks r \<in> set ck - set pk) (df_rows current_df)\<rparr>,
                \<lparr> df_columns = df_columns current_df,
                  df_rows = concat (map (\<lambda>k. filter (\<lambda>r. row_key lib pks r = k) (df_rows current_df))
                    (filter (fp_differs lib pks current_df previous_df)
                       (set_iter lib (filter (\<lambda>k. k \<in> set pk) (remdups ck))))) \<rparr>,
                set_iter lib (filter (\<lambda>k. k \<notin> set ck) (remdups pk)),
                filter (\<lambda>k. \<not> fp_differs lib pks current_df previous_df k)
                  (set_iter lib (filter (\<lambda>k. k \<in> set pk) (remdups ck))))"
proof -
  have c: "frame_keys lib pks current_df = Inr ck"
    using mc by (rule make_composite_key_frame_keys)
  have p: "frame_keys lib pks previous_df = Inr pk"
    using mp by (rule make_composite_key_frame_keys)
  have ck: "ck = map (row_key lib pks) (df_rows current_df)"
    using c by (rule frame_keys_rows)
  have pk: "pk = map (row_key lib pks) (df_rows previous_df)"
    using p by (rule frame_keys_rows)
  let ?common = "set_iter lib (filter (\<lambda>k. k \<in> set pk) (remdups ck))"
  have sub: "set ?common \<subseteq> set ck \<inter> set pk"
    by (auto simp: set_iter_set [OF ok])
  have l1: "length (record_fingerprints lib current_df) = length ck"
    by (simp add: ck record_fingerprints_def)
  have l2: "length (record_fingerprints lib previous_df) = length pk"
    by (simp add: pk record_fingerprints_def)
  note cl = classify_common_eq [OF sub l1 l2, of current_df "[]" "[]"]
  have sel: "select_rows current_df (map P ck) =
        current_df\<lparr>df_rows := filter (\<lambda>r. P (row_key lib pks r)) (df_rows current_df)\<rparr>" for P
  proof -
    have "df_rows (select_rows current_df (map P ck)) =
        filter (\<lambda>r. P (row_key lib pks r)) (df_rows current_df)"
      unfolding ck by (rule df_rows_select_rows)
    then show ?thesis by (simp add: select_rows_def)
  qed
  have conc: "concat (map df_rows (map (\<lambda>k. select_rows current_df (map (\<lambda>k'. k' = k) ck)) xs))
      = concat (map (\<lambda>k. filter (\<lambda>r. row_key lib pks r = k) (df_rows current_df)) xs)" for xs
    by (simp add: sel o_def)
  have dif: "(\<lambda>k. map_of (zip ck (record_fingerprints lib current_df)) k
                 \<noteq> map_of (zip pk (record_fingerprints lib previous_df)) k)
             = fp_differs lib pks current_df previous_df"
    by (simp add: fp_differs_def ck pk fun_eq_iff)
  have dif': "(\<lambda>k. map_of (zip ck (record_fingerprints lib current_df)) k
                 = map_of (zip pk (record_fingerprints lib previous_df)) k)
             = (\<lambda>k. \<not> fp_differs lib pks current_df previous_df k)"
    by (simp add: fp_differs_def ck pk fun_eq_iff)
  show ?thesis
    using mc mp
    unfolding compare_snapshots_def Let_def
    apply (simp add: cl dif dif')
    apply (simp add: sel concat_frames_def empty_like_def conc o_def)
    done
qed

lemma compare_snapshots_Inr_keys:
  assumes "compare_snapshots lib pks current_df previous_df = Inr x"
  shows "\<exists>ck pk. make_composite_key pks (add_fingerprints lib current_df) = Inr ck
           \<and> make_composite_key pks (add_fingerprints lib previous_df) = Inr pk"
  using assms unfolding compare_snapshots_def Let_def
  by (auto split: sum.splits)

lemma detect_changes_compare:
  assumes "previous_state self = Some prev_state"
    and "files w (last_csv_path prev_state) = Some previous_df"
    and "files w current_csv = Some current_df"
    and "detect_changes lib t_state t_detect self w current_csv schema_columns = (Inr d, w')"
  shows "compare_snapshots lib (self_primary_keys self) current_df previous_df =
           Inr (new_records d, modified_records d, deleted_record_ids d, unchanged_record_ids d)"
  using assms unfolding detect_changes_def Let_def
  by (auto split: if_splits sum.splits)

text \<open>
  C1. Whenever \<^verbatim>\<open>detect_changes\<close> compares the current snapshot with a previous
  snapshot that is there and returns a result, the composite keys of the new records, the
  composite keys of the modified records, the deleted ids and the unchanged ids are
  pairwise disjoint sets, and their union is the set of the composite keys of the current
  and of the previous snapshot.
\<close>

theorem detect_changes_partition:
  assumes "set_iter_ok lib"
    and "previous_state self = Some prev_state"
    and "files w (last_csv_path prev_state) = Some previous_df"
    and "files w current_csv = Some current_df"
    and "detect_changes lib t_state t_detect self w current_csv schema_columns = (Inr d, w')"
  shows "\<exists>new_keys modified_keys current_keys previous_keys.
           frame_keys lib (self_primary_keys self) (new_records d) = Inr new_keys
         \<and> frame_keys lib (self_primary_keys self) (modified_records d) = Inr modified_keys
         \<and> frame_keys lib (self_primary_keys self) current_df = Inr current_keys
         \<and> frame_keys lib (self_primary_keys self) previous_df = Inr previous_keys
         \<and> set new_keys \<inter> set modified_keys = {}
         \<and> set new_keys \<inter> set (deleted_record_ids d) = {}
         \<and> set new_keys \<inter> set (unchanged_record_ids d) = {}
         \<and> set modified_keys \<inter> set (deleted_record_ids d) = {}
         \<and> set modified_keys \<inter> set (unchanged_record_ids d) = {}
         \<and> set (deleted_record_ids d) \<inter> set (unchanged_record_ids d) = {}
         \<and> set new_keys \<union> set modified_keys \<union> set (deleted_record_ids d)
               \<union> set (unchanged_record_ids d)
             = set current_keys \<union> set previous_keys"
proof -
  let ?pks = "self_primary_keys self"
  let ?rk = "row_key lib ?pks"
  let ?dif = "fp_differs lib ?pks current_df previous_df"
  note cmp = detect_changes_compare [OF assms(2-5)]
  from compare_snapshots_Inr_keys [OF cmp] obtain ck pk
    where mc: "make_composite_key ?pks (add_fingerprints lib current_df) = Inr ck"
      and mp: "make_composite_key ?pks (add_fingerprints lib previous_df) = Inr pk" by blast
  have c: "frame_keys lib ?pks current_df = Inr ck"
    using mc by (rule make_composite_key_frame_keys)
  have p: "frame_keys lib ?pks previous_df = Inr pk"
    using mp by (rule make_composite_key_frame_keys)
  have ck: "ck = map ?rk (df_rows current_df)" using c by (rule frame_keys_rows)
  let ?common = "set_iter lib (filter (\<lambda>k. k \<in> set pk) (remdups ck))"
  have common: "set ?common = set ck \<inter> set pk"
    by (auto simp: set_iter_set [OF assms(1)])
  from cmp compare_snapshots_eq [OF assms(1) mc mp]
  have n: "new_records d = current_df\<lparr>df_rows := filter (\<lambda>r. ?rk r \<in> set ck - set pk) (df_rows current_df)\<rparr>"
    and m: "modified_records d = \<lparr> df_columns = df_columns current_df,
              df_rows = concat (map (\<lambda>k. filter (\<lambda>r. ?rk r = k) (df_rows current_df))
                 (filter ?dif ?common)) \<rparr>"
    and dl: "deleted_record_ids d = set_iter lib (filter (\<lambda>k. k \<notin> set ck) (remdups pk))"
    and un: "unchanged_record_ids d = filter (\<lambda>k. \<not> ?dif k) ?common"
    by simp_all
  have nk: "frame_keys lib ?pks (new_records d) = Inr (map ?rk (df_rows (new_records d)))"
    by (rule frame_keys_same_columns [OF c]) (simp add: n)
  have mk: "frame_keys lib ?pks (modified_records d) = Inr (map ?rk (df_rows (modified_records d)))"
    by (rule frame_keys_same_columns [OF c]) (simp add: m)
  have sn: "set (map ?rk (df_rows (new_records d))) = set ck - set pk"
    by (auto simp: n ck)
  have sm: "set (map ?rk (df_rows (modified_records d))) = {k \<in> set ck \<inter> set pk. ?dif k}"
    unfolding m using common by (auto simp: ck)
  have sd: "set (deleted_record_ids d) = set pk - set ck"
    by (auto simp: dl set_iter_set [OF assms(1)])
  have su: "set (unchanged_record_ids d) = {k \<in> set ck \<inter> set pk. \<not> ?dif k}"
    unfolding un using common by auto
  show ?thesis
    apply (rule exI [of _ "map ?rk (df_rows (new_records d))"])
    apply (rule exI [of _ "map ?rk (df_rows (modified_records d))"])
    apply (rule exI [of _ ck])
    apply (rule exI [of _ pk])
    unfolding sn sm sd su
    using nk mk c p by auto
qed

lemma example_detect:
  "detect_changes example_lib 5 6 example_loader example_world ''new.csv'' [''id'', ''name'']
     = (Inr example_delta, LoadState_save example_new_state example_world)"
  by (simp add: example_defs eval_defs numeral_3_eq_3)

theorem detect_changes_partition_witness:
  "set_iter_ok example_lib
   \<and> previous_state example_loader = Some example_state
   \<and> files example_world (last_csv_path example_state) =
       Some (id_name_frame [id_name_row ''1'' ''A'', id_name_row ''2'' ''B'', id_name_row ''3'' ''C''])
   \<and> files example_world ''new.csv'' =
       Some (id_name_frame [id_name_row ''1'' ''A'', id_name_row ''2'' ''X'', id_name_row ''4'' ''D''])
   \<and> detect_changes example_lib 5 6 example_loader example_world ''new.csv'' [''id'', ''name'']
       = (Inr example_delta, LoadState_save example_new_state example_world)
   \<and> (\<exists>new_keys modified_keys current_keys previous_keys.
           frame_keys example_lib (self_primary_keys example_loader) (new_records example_delta)
             = Inr new_keys
         \<and> frame_keys example_lib (self_primary_keys example_loader) (modified_records example_delta)
             = Inr modified_keys
         \<and> frame_keys example_lib (self_primary_keys example_loader)
              (id_name_frame [id_name_row ''1'' ''A'', id_name_row ''2'' ''X'', id_name_row ''4'' ''D''])
             = Inr current_keys
         \<and> frame_keys example_lib (self_primary_keys example_loader)
              (id_name_frame [id_name_row ''1'' ''A'', id_name_row ''2'' ''B'', id_name_row ''3'' ''C''])
             = Inr previous_keys
         \<and> set new_keys \<inter> set modified_keys = {}
         \<and> set new_keys \<inter> set (deleted_record_ids example_delta) = {}
         \<and> set new_keys \<inter> set (unchanged_record_ids example_delta) = {}
         \<and> set modified_keys \<inter> set (deleted_record_ids example_delta) = {}
         \<and> set modified_keys \<inter> set (unchanged_record_ids example_delta) = {}
         \<and> set (deleted_record_ids example_delta) \<inter> set (unchanged_record_ids example_delta) = {}
         \<and> set new_keys \<union> set modified_keys \<union> set (deleted_record_ids example_delta)
               \<union> set (unchanged_record_ids example_delta)
             = set current_keys \<union> set previous_keys)"
proof -
  have h1: "set_iter_ok example_lib" by (rule example_lib_ok)
  have h2: "previous_state example_loader = Some example_state"
    by (simp add: example_loader_def DeltaLoader_init_def LoadState_load_def example_world_def)
  have h3: "files example_world (last_csv_path example_state) =
       Some (id_name_frame [id_name_row ''1'' ''A'', id_name_row ''2'' ''B'', id_name_row ''3'' ''C''])"
    by (simp add: example_world_def example_state_def)
  have h4: "files example_world ''new.csv'' =
       Some (id_name_frame [id_name_row ''1'' ''A'', id_name_row ''2'' ''X'', id_name_row ''4'' ''D''])"
    by (simp add: example_world_def)
  note h5 = example_detect
  from detect_changes_partition [OF h1 h2 h3 h4 h5] h1 h2 h3 h4 h5 show ?thesis by blast
qed

text \<open>
  C9. The pure addition: with the previous snapshot holding the row (1, A), the current
  snapshot holding the rows (1, A) and (2, B), and the primary key \<^verbatim>\<open>id\<close>,
  \<^verbatim>\<open>detect_changes\<close> returns the row (2, B) as the only new record, no modified record,
  no deleted id, and the one unchanged id 1. The cells of a CSV file are strings, so the
  id is the string \<^verbatim>\<open>1\<close>.
\<close>

theorem detect_changes_pure_addition:
  assumes "set_iter_ok lib"
    and "previous_state self = Some prev_state"
    and "self_primary_keys self = [''id'']"
    and "files w (last_csv_path prev_state) = Some (id_name_frame [id_name_row ''1'' ''A''])"
    and "files w current_csv =
           Some (id_name_frame [id_name_row ''1'' ''A'', id_name_row ''2'' ''B''])"
    and "set schema_columns \<subseteq> {''id'', ''name''}"
  shows "\<exists>d w'. detect_changes lib t_state t_detect self w current_csv schema_columns = (Inr d, w')
           \<and> df_rows (new_records d) = [id_name_row ''2'' ''B'']
           \<and> df_rows (modified_records d) = []
           \<and> deleted_record_ids d = []
           \<and> unchanged_record_ids d = [''1'']"
proof -
  have cmp: "compare_snapshots lib [''id'']
       (id_name_frame [id_name_row ''1'' ''A'', id_name_row ''2'' ''B''])
       (id_name_frame [id_name_row ''1'' ''A''])
     = Inr (id_name_frame [id_name_row ''2'' ''B''], id_name_frame [], [], [''1''])"
    using set_iter_Nil [OF assms(1)] set_iter_single [OF assms(1)]
    by (simp add: compare_snapshots_def id_name_frame_def id_name_row_def Let_def
        add_fingerprints_def set_column_def record_fingerprints_def
        make_composite_key_def key_series_def cell_of_def astype_str_def select_rows_def
        empty_like_def)
  have sch: "set schema_columns - set (df_columns (id_name_frame rs)) = {}" for rs
    using assms(6) by (auto simp: id_name_frame_def)
  show ?thesis
    using assms(2-5) cmp sch
    by (simp add: detect_changes_def Let_def id_name_frame_def)
qed

theorem detect_changes_pure_addition_witness:
  "set_iter_ok example_lib
   \<and> previous_state example_loader = Some example_state
   \<and> self_primary_keys example_loader = [''id'']
   \<and> files addition_world (last_csv_path example_state) =
       Some (id_name_frame [id_name_row ''1'' ''A''])
   \<and> files addition_world ''new.csv'' =
       Some (id_name_frame [id_name_row ''1'' ''A'', id_name_row ''2'' ''B''])
   \<and> set [''id'', ''name''] \<subseteq> {''id'', ''name''}
   \<and> (\<exists>d w'. detect_changes example_lib 5 6 example_loader addition_world ''new.csv''
                  [''id'', ''name''] = (Inr d, w')
           \<and> df_rows (new_records d) = [id_name_row ''2'' ''B'']
           \<and> df_rows (modified_records d) = []
           \<and> deleted_record_ids d = []
           \<and> unchanged_record_ids d = [''1''])"
proof -
  have h1: "set_iter_ok example_lib" by (rule example_lib_ok)
  have h2: "previous_state example_loader = Some example_state"
    by (simp add: example_loader_def DeltaLoader_init_def LoadState_load_def example_world_def)
  have h3: "self_primary_keys example_loader = [''id'']"
    by (simp add: example_loader_def DeltaLoader_init_def)
  have h4: "files addition_world (last_csv_path example_state) =
       Some (id_name_frame [id_name_row ''1'' ''A''])"
    by (simp add: addition_world_def example_state_def)
  have h5: "files addition_world ''new.csv'' =
       Some (id_name_frame [id_name_row ''1'' ''A'', id_name_row ''2'' ''B''])"
    by (simp add: addition_world_def)
  have h6: "set [''id'', ''name''] \<subseteq> {''id'', ''name''}" by simp
  from detect_changes_pure_addition [OF h1 h2 h3 h4 h5 h6, of 5 6] h1 h2 h3 h4 h5 h6
  show ?thesis by blast
qed

subsection \<open>The staging load\<close>


lemma map_of_with_meta:
  "map_of (with_meta t ty r) =
     (map_option sql_of_cell \<circ> map_of r)(''_load_timestamp'' \<mapsto> Timestamp t,
        ''_load_type'' \<mapsto> Text ty, ''_is_deleted'' \<mapsto> Boolean False)"
  by (simp add: with_meta_def update_conv' map_of_map)







text \<open>
  C5. For a delta without changes (no new record, no modified record, no deleted id)
  \<^verbatim>\<open>load_delta_to_staging\<close> returns at once and the staging table is left as it was.
\<close>

theorem load_delta_no_changes:
  assumes "\<not> has_changes delta"
  shows "load_delta_to_staging t_insert t_update t_delete self delta tbl = (Inr (), tbl)"
  using assms by (simp add: load_delta_to_staging_def)

theorem load_delta_no_changes_witness:
  "\<not> has_changes unchanged_delta
   \<and> load_delta_to_staging 7 8 9 example_loader unchanged_delta example_table
       = (Inr (), example_table)"
proof -
  have h: "\<not> has_changes unchanged_delta"
    by (simp add: has_changes_def unchanged_delta_def len_def id_name_frame_def)
  from load_delta_no_changes [OF h, of 7 8 9 example_loader example_table] h
  show ?thesis by blast
qed


lemma sql_column_ref_id [simp]: "sql_column_ref ''id''"
  by (simp add: sql_column_ref_def ident_start_def ident_part_def reserved_words_def)

lemma matches_any_id_name [simp]:
  "matches_any ''id'' ids (with_meta t ty (id_name_row i n)) \<longleftrightarrow> Some i \<in> set ids"
  by (simp add: matches_any_def map_of_with_meta id_name_row_def sql_of_cell_def)

lemma cell_of_id_name [simp]:
  "cell_of (id_name_row i n) ''id'' = Some i"
  "cell_of (id_name_row i n) ''name'' = Some n"
  by (simp_all add: cell_of_def id_name_row_def)

lemma example_loader_simps [simp]:
  "self_primary_keys example_loader = [''id'']"
  "previous_state example_loader = Some example_state"
  "self_entity_type example_loader = ''deals''"
  by (simp_all add: example_loader_def DeltaLoader_init_def LoadState_load_def example_world_def)

lemma composite_loader_simps [simp]:
  "self_primary_keys composite_loader = [''id'', ''name'']"
  "previous_state composite_loader = Some example_state"
  "self_entity_type composite_loader = ''deals''"
  by (simp_all add: composite_loader_def DeltaLoader_init_def LoadState_load_def example_world_def)

lemma is_deleted_with_meta [simp]:
  "map_of (with_meta t ty r) ''_is_deleted'' = Some (Boolean False)"
  by (simp add: map_of_with_meta)







subsection \<open>Composite keys in detection and in the staging load\<close>









lemma matches_any_id_name_v [simp]:
  "matches_any ''id'' ids (with_meta t ty (id_name_v_row i n v)) \<longleftrightarrow> Some i \<in> set ids"
  by (simp add: matches_any_def map_of_with_meta id_name_v_row_def sql_of_cell_def)

lemma cell_of_id_name_v [simp]:
  "cell_of (id_name_v_row i n v) ''id'' = Some i"
  "cell_of (id_name_v_row i n v) ''name'' = Some n"
  by (simp_all add: cell_of_def id_name_v_row_def)






subsection \<open>Runs that the libraries refuse\<close>

text \<open>
  Two failures that the loader inherits from the libraries it calls. With two or more
  key columns a snapshot without rows makes \<^verbatim>\<open>detect_changes\<close> raise before any state
  is written; a key column that is not a column reference as pasted into the SQL text
  makes the replacement of modified records and the soft delete raise, with the table as
  the phase found it.
\<close>

lemma make_composite_key_no_rows:
  assumes "2 \<le> length pks" and "set pks \<subseteq> set (df_columns df)" and "df_rows df = []"
  shows "make_composite_key pks df = Inl (ValueError_multiple_columns ''_composite_key'')"
  using assms by (simp add: make_composite_key_def key_series_def)

lemma detect_changes_no_rows_composite:
  assumes "previous_state self = Some prev_state"
    and "files w (last_csv_path prev_state) = Some previous_df"
    and "files w current_csv = Some current_df"
    and "set schema_columns \<subseteq> set (df_columns current_df)"
    and "2 \<le> length (self_primary_keys self)"
    and "set (self_primary_keys self) \<subseteq> set (df_columns current_df)"
    and "df_rows current_df = []"
  shows "detect_changes lib t_state t_detect self w current_csv schema_columns
           = (Inl (ValueError_multiple_columns ''_composite_key''), w)"
proof -
  have "make_composite_key (self_primary_keys self) (add_fingerprints lib current_df)
          = Inl (ValueError_multiple_columns ''_composite_key'')"
    using assms(5-7)
    by (intro make_composite_key_no_rows)
       (auto simp: df_columns_add_fingerprints df_rows_add_fingerprints)
  then have "compare_snapshots lib (self_primary_keys self) current_df previous_df
          = Inl (ValueError_multiple_columns ''_composite_key'')"
    by (simp add: compare_snapshots_def Let_def)
  then show ?thesis using assms(1-4) by (simp add: detect_changes_def Let_def)
qed

lemma sql_column_ref_examples:
  "\<not> sql_column_ref ''Record ID''"
  "\<not> sql_column_ref ''Case_CaseId''"
  "\<not> sql_column_ref ''order''"
  "sql_column_ref ''icalps_deal_id''"
  by (simp_all add: sql_column_ref_def ident_start_def ident_part_def reserved_words_def)

lemma load_modified_refused:
  assumes "self_primary_keys self = pk # rest" and "\<not> sql_column_ref pk"
    and "df_rows (modified_records delta) \<noteq> []" and "pk \<in> set (df_columns (modified_records delta))"
  shows "load_modified t self delta tbl = (Inl DatabaseError, tbl)"
  using assms by (simp add: load_modified_def len_def column_tolist_def)

lemma load_deleted_refused:
  assumes "self_primary_keys self = pk # rest" and "\<not> sql_column_ref pk"
    and "deleted_record_ids delta \<noteq> []"
  shows "load_deleted t self delta tbl = (Inl DatabaseError, tbl)"
  using assms by (simp add: load_deleted_def)

end
